theory Spec2Isabelle
  imports Main "HOL-Library.Sublist" "HOL-Library.List_Lexorder" "HOL-Library.Char_ord"
begin

section \<open>Python values used by translator.py\<close>

text \<open>
  A Python \<open>str\<close> is a \<^typ>\<open>string\<close>; a character is a code point below 256.
  A Python \<open>dict\<close> is an association list with pairwise distinct keys, in insertion
  order; a Python \<open>set\<close> of file identifiers is a list without repetitions, in the order
  the set is iterated. An entry mapping has string keys and string values, as the
  properties parser produces them.
\<close>

type_synonym ('k, 'v) dict = "('k \<times> 'v) list"

type_synonym entries = "(string, string) dict"

text \<open>\<open>d[k] = v\<close>: an existing key keeps its position, a new key goes to the end.\<close>

fun dict_set :: "('k, 'v) dict \<Rightarrow> 'k \<Rightarrow> 'v \<Rightarrow> ('k, 'v) dict" where
  "dict_set [] k v = [(k, v)]"
| "dict_set ((k', v') # d) k v =
     (if k' = k then (k, v) # d else (k', v') # dict_set d k v)"

definition dict_keys :: "('k, 'v) dict \<Rightarrow> 'k list" where
  "dict_keys d = map fst d"

definition dict_values :: "('k, 'v) dict \<Rightarrow> 'v list" where
  "dict_values d = map snd d"

text \<open>\<open>a == b\<close> on dicts: the same items, whatever the insertion order.\<close>

definition dict_eq :: "('k, 'v) dict \<Rightarrow> ('k, 'v) dict \<Rightarrow> bool" where
  "dict_eq a b = (set a = set b)"

definition newline :: char where
  "newline = CHR 0x0A"

definition quote :: char where
  "quote = CHR 0x22"

text \<open>\<open>str.isspace\<close> on the code points below 256.\<close>

definition isspace :: "char \<Rightarrow> bool" where
  "isspace c = (let n = (of_char c :: nat) in
     (9 \<le> n \<and> n \<le> 13) \<or> (28 \<le> n \<and> n \<le> 32) \<or> n = 133 \<or> n = 160)"

text \<open>\<open>s.strip()\<close> and \<open>s.strip(chars)\<close>, through the predicate of the stripped characters.\<close>

definition strip_with :: "(char \<Rightarrow> bool) \<Rightarrow> string \<Rightarrow> string" where
  "strip_with P s = rev (dropWhile P (rev (dropWhile P s)))"

definition strip :: "string \<Rightarrow> string" where
  "strip s = strip_with isspace s"

definition strip_quotes :: "string \<Rightarrow> string" where
  "strip_quotes s = strip_with (\<lambda>c. c = quote) s"

text \<open>\<open>s.split(sep)\<close> for a separator of one character: never the empty list.\<close>

fun str_split :: "char \<Rightarrow> string \<Rightarrow> string list" where
  "str_split sep [] = [[]]"
| "str_split sep (c # cs) =
     (if c = sep then [] # str_split sep cs
      else (case str_split sep cs of
              [] \<Rightarrow> [[c]]
            | p # ps \<Rightarrow> (c # p) # ps))"

text \<open>\<open>sep.join(parts)\<close>.\<close>

fun str_join :: "char \<Rightarrow> string list \<Rightarrow> string" where
  "str_join sep [] = []"
| "str_join sep [p] = p"
| "str_join sep (p # q # ps) = p @ sep # str_join sep (q # ps)"

definition startswith :: "string \<Rightarrow> char \<Rightarrow> bool" where
  "startswith s c = (case s of [] \<Rightarrow> False | x # _ \<Rightarrow> x = c)"

text \<open>
  Iterating over a text file yields its lines, each with its terminating line feed (the
  last one possibly without).
\<close>

fun readlines :: "string \<Rightarrow> string list" where
  "readlines [] = []"
| "readlines (c # cs) =
     (if c = newline then [c] # readlines cs
      else (case readlines cs of
              [] \<Rightarrow> [[c]]
            | l # ls \<Rightarrow> (c # l) # ls))"

text \<open>
  A file opened in text mode with the default \<open>newline=None\<close> is read with universal
  newlines: every \<open>CR LF\<close> and every lone \<open>CR\<close> of the content arrives as one line feed.
\<close>

definition carriage_return :: char where
  "carriage_return = CHR 0x0D"

fun universal_newlines :: "string \<Rightarrow> string" where
  "universal_newlines [] = []"
| "universal_newlines [c] = [if c = carriage_return then newline else c]"
| "universal_newlines (c # d # cs) =
     (if c = carriage_return \<and> d = newline then newline # universal_newlines cs
      else if c = carriage_return then newline # universal_newlines (d # cs)
      else c # universal_newlines (d # cs))"

text \<open>
  On writing in text mode every line feed becomes \<open>os.linesep\<close>, which is the line feed
  itself on the POSIX systems modelled here.
\<close>

definition linesep :: string where
  "linesep = [newline]"

definition write_text :: "string \<Rightarrow> string" where
  "write_text s = concat (map (\<lambda>c. if c = newline then linesep else [c]) s)"

section \<open>PropertiesParser\<close>

definition separator :: char where
  "separator = CHR ''=''"

definition comment_char :: char where
  "comment_char = CHR ''#''"

text \<open>
  The body of the loop over the lines of one file (translator.py, lines 86 to 92): the
  entry the line stores, if it stores one.
\<close>

definition parse_line :: "string \<Rightarrow> (string \<times> string) option" where
  "parse_line line =
     (let l = strip line in
      if l \<noteq> [] \<and> \<not> startswith l comment_char then
        (let key_value_split = str_split separator l;
             key = strip (hd key_value_split);
             val = strip_quotes (strip (str_join separator (tl key_value_split)))
         in if val \<noteq> [] then Some (key, val) else None)
      else None)"

definition store_line :: "string \<Rightarrow> entries \<Rightarrow> entries" where
  "store_line line current_file_key_val =
     (case parse_line line of
        None \<Rightarrow> current_file_key_val
      | Some (key, val) \<Rightarrow> dict_set current_file_key_val key val)"

text \<open>The entry mapping of one file, from its lines in file order.\<close>

definition parse_lines :: "string list \<Rightarrow> entries" where
  "parse_lines ls = fold store_line ls []"

section \<open>Errors, the disk and the console\<close>

text \<open>
  Every way the run can stop is a value. The two \<open>sys.exit\<close> calls of
  \<open>get_default_locale_file\<close> carry what their message interpolates: the locale, the
  bundle's path and, for the ambiguous case, the matches. The other errors are the Python
  exceptions of the same names, with the file, key, name or operator they are about.
\<close>

datatype error =
    MultipleMatches string string "string list"
  | NoMatch string string
  | FileNotFoundError string
  | JSONDecodeError string
  | KeyError string
  | NameError string
  | TypeError string

text \<open>
  The values that reach \<open>Reconciliator\<close>: \<open>print_manifest\<close> takes whatever the lists of
  \<open>additions\<close> and \<open>missing\<close> hold, and a value read by \<open>json.loads\<close> may be \<open>None\<close>, a
  boolean, an integer, a string or a nested object. (JSON arrays and numbers with a
  fraction are not values of this type.)
\<close>

datatype pyval =
    PyNone
  | PyBool bool
  | PyInt int
  | PyStr string
  | PyDict "(string \<times> pyval) list"

text \<open>
  The manifest of \<open>Reconciliator\<close>: top-level key to a sequence of single-key mappings.
\<close>

type_synonym manifest = "(string, (string, pyval list) dict list) dict"

text \<open>
  What the program prints: the notice of a snapshot's creation (snapshot, default-locale
  file) and the manifest, in the serialisation chosen.
\<close>

datatype printed =
    SnapshotNotice string string
  | JsonDocument manifest
  | YamlDocument manifest

text \<open>
  The disk maps a path to the content of the file, character by character as it is
  stored; a path that is not a key does not exist.
\<close>

record world =
  disk :: "(string, string) dict"
  stdout :: "printed list"

definition path_exists :: "world \<Rightarrow> string \<Rightarrow> bool" where
  "path_exists w p = (p \<in> set (dict_keys (disk w)))"

section \<open>Bundle\<close>

record bundle_obj =
  path :: string
  extension :: string
  files :: "string list"
  default_locale :: string

definition Bundle :: "string \<Rightarrow> string \<Rightarrow> string list \<Rightarrow> string option \<Rightarrow> bundle_obj" where
  "Bundle p e fs dl =
     \<lparr>path = p, extension = e, files = remdups fs,
      default_locale = (case dl of
                          None \<Rightarrow> ''en_US''
                        | Some l \<Rightarrow> if l = [] then ''en_US'' else l)\<rparr>"



text \<open>
  \<open>re.match(rf'.*_{default_locale}(?!(.*snapshot)).*', file)\<close>, for a locale whose
  characters the pattern language reads literally. The match may start at any position
  that only characters other than the line feed precede (the leading \<open>.*\<close>); there the
  text \<open>_<locale>\<close> must follow, and the rest of that line must not contain
  \<open>snapshot\<close> (the negative lookahead). The trailing \<open>.*\<close> always matches.
\<close>

definition matches_here :: "string \<Rightarrow> string \<Rightarrow> bool" where
  "matches_here loc s =
     (prefix (CHR ''_'' # loc) s \<and>
      \<not> sublist ''snapshot'' (takeWhile (\<lambda>c. c \<noteq> newline) (drop (Suc (length loc)) s)))"

fun re_match :: "string \<Rightarrow> string \<Rightarrow> bool" where
  "re_match loc [] = matches_here loc []"
| "re_match loc (c # cs) = (matches_here loc (c # cs) \<or> (c \<noteq> newline \<and> re_match loc cs))"

definition get_default_locale_file :: "bundle_obj \<Rightarrow> error + string" where
  "get_default_locale_file b =
     (let locale_regex_match = filter (re_match (default_locale b)) (files b) in
      if length locale_regex_match > 1 then
        Inl (MultipleMatches (default_locale b) (path b) locale_regex_match)
      else if length locale_regex_match = 0 then
        Inl (NoMatch (default_locale b) (path b))
      else Inr (hd locale_regex_match))"

text \<open>
  The snapshot is opened for appending, which creates it, before the default-locale file
  is opened for reading; both are opened in text mode, and the lines read are written one
  by one.
\<close>

definition write_lines :: "string list \<Rightarrow> string" where
  "write_lines ls = fold (\<lambda>line snap. snap @ write_text line) ls []"

definition generate_snapshot_file :: "bundle_obj \<Rightarrow> world \<Rightarrow> (error + string) \<times> bundle_obj \<times> world" where
  "generate_snapshot_file b w =
     (case get_default_locale_file b of
        Inl e \<Rightarrow> (Inl e, b, w)
      | Inr default_locale_path \<Rightarrow>
          (let snapshot_file_path = default_locale_path @ ''.snapshot'';
               b' = (if snapshot_file_path \<notin> set (files b)
                     then b\<lparr>files := files b @ [snapshot_file_path]\<rparr> else b)
           in if \<not> path_exists w snapshot_file_path then
                (let w' = w\<lparr>stdout := stdout w @
                              [SnapshotNotice snapshot_file_path default_locale_path]\<rparr>
                 in case map_of (disk w) default_locale_path of
                      None \<Rightarrow>
                        (Inl (FileNotFoundError default_locale_path), b,
                         w'\<lparr>disk := dict_set (disk w) snapshot_file_path []\<rparr>)
                    | Some content \<Rightarrow>
                        (Inr snapshot_file_path, b',
                         w'\<lparr>disk := dict_set (disk w) snapshot_file_path
                                      (write_lines
                                         (readlines (universal_newlines content)))\<rparr>))
              else (Inr snapshot_file_path, b', w)))"

section \<open>The parsers and their shared dictionaries\<close>

text \<open>
  \<open>dict_representation\<close> is an attribute of the class \<open>JsonParser\<close>, and another one of
  the class \<open>PropertiesParser\<close>; \<open>self.dict_representation[file] = ...\<close> writes into that
  one dictionary, whichever instance runs. \<open>additions\<close> and \<open>missing\<close> are attributes
  of the class \<open>TranslationGenerator\<close>, \<open>data\<close> of \<open>Reconciliator\<close>. They make the state of
  the run.
\<close>

record state =
  json_dict_representation :: "(string, entries) dict"
  properties_dict_representation :: "(string, entries) dict"
  additions :: "(string, string list) dict"
  missing :: "(string, string list) dict"
  data :: manifest

definition initial_state :: state where
  "initial_state =
     \<lparr>json_dict_representation = [], properties_dict_representation = [],
      additions = [], missing = [], data = []\<rparr>"

text \<open>
  \<open>json.loads\<close> belongs to the library: it is the parameter \<open>loads\<close>, \<open>None\<close> where it
  raises.
\<close>

fun json_parse_to_dict ::
  "(string \<Rightarrow> entries option) \<Rightarrow> world \<Rightarrow> string list \<Rightarrow> (string, entries) dict
     \<Rightarrow> error + (string, entries) dict" where
  "json_parse_to_dict loads w [] rep = Inr rep"
| "json_parse_to_dict loads w (file # fs) rep =
     (case map_of (disk w) file of
        None \<Rightarrow> Inl (FileNotFoundError file)
      | Some content \<Rightarrow>
          (case loads (universal_newlines content) of
             None \<Rightarrow> Inl (JSONDecodeError file)
           | Some dictdump \<Rightarrow> json_parse_to_dict loads w fs (dict_set rep file dictdump)))"

fun properties_parse_to_dict ::
  "world \<Rightarrow> string list \<Rightarrow> (string, entries) dict \<Rightarrow> error + (string, entries) dict" where
  "properties_parse_to_dict w [] rep = Inr rep"
| "properties_parse_to_dict w (file # fs) rep =
     (case map_of (disk w) file of
        None \<Rightarrow> Inl (FileNotFoundError file)
      | Some content \<Rightarrow>
          properties_parse_to_dict w fs
            (dict_set rep file (parse_lines (readlines (universal_newlines content)))))"

section \<open>TranslationGenerator\<close>

text \<open>
  \<open>[f'{key}: {val}' for key, val in source_dict.items()
     if key not in candidate_dict.keys()]\<close>
\<close>

definition missing_keys :: "entries \<Rightarrow> entries \<Rightarrow> string list" where
  "missing_keys source_dict candidate_dict =
     map (\<lambda>(key, val). key @ '': '' @ val)
       (filter (\<lambda>(key, val). key \<notin> set (dict_keys candidate_dict)) source_dict)"

text \<open>The body of the loop over \<open>bundle.keys()\<close>, at one file and its mapping.\<close>

definition record_missing ::
  "entries \<Rightarrow> string \<times> entries \<Rightarrow> (string, string list) dict \<Rightarrow> (string, string list) dict" where
  "record_missing source_dict fc miss =
     (let mk = missing_keys source_dict (snd fc)
      in if mk \<noteq> [] then dict_set miss (fst fc) mk else miss)"

definition check_missing_keys_in_other_locales ::
  "string \<Rightarrow> (string, entries) dict \<Rightarrow> (string, string list) dict
     \<Rightarrow> error + (string, string list) dict" where
  "check_missing_keys_in_other_locales source parsed miss =
     (case map_of parsed source of
        None \<Rightarrow> Inl (KeyError source)
      | Some source_dict \<Rightarrow> Inr (fold (record_missing source_dict) parsed miss))"

text \<open>
  \<open>[candidate_dict[x] for x in candidate_dict.keys()
     if candidate_dict[x] not in source_dict.values()]\<close>
\<close>

definition new_values :: "entries \<Rightarrow> entries \<Rightarrow> string list" where
  "new_values source_dict candidate_dict =
     map snd (filter (\<lambda>(x, v). v \<notin> set (dict_values source_dict)) candidate_dict)"

definition new_entries ::
  "string \<Rightarrow> string \<Rightarrow> (string, entries) dict \<Rightarrow> (string, string list) dict
     \<Rightarrow> error + (string, string list) dict" where
  "new_entries source candidate parsed adds =
     (case map_of parsed source of
        None \<Rightarrow> Inl (KeyError source)
      | Some source_dict \<Rightarrow>
          (case map_of parsed candidate of
             None \<Rightarrow> Inl (KeyError candidate)
           | Some candidate_dict \<Rightarrow>
               if \<not> dict_eq source_dict candidate_dict then
                 (let nv = new_values source_dict candidate_dict
                  in if nv \<noteq> [] then Inr (dict_set adds candidate nv) else Inr adds)
               else Inr adds))"

text \<open>
  Lines 211 to 217 of \<open>process_bundle\<close>: the parser is chosen by the extension and
  returns its class's dictionary. In the last branch the f-string reads the name
  \<open>whoami\<close>, which is bound in the class body only and not in the method.
\<close>

definition parsed_bundle_of ::
  "(string \<Rightarrow> entries option) \<Rightarrow> bundle_obj \<Rightarrow> state \<Rightarrow> world
     \<Rightarrow> error + (string, entries) dict \<times> state" where
  "parsed_bundle_of loads b st w =
     (if extension b = ''json'' then
        (case json_parse_to_dict loads w (files b) (json_dict_representation st) of
           Inl e \<Rightarrow> Inl e
         | Inr rep \<Rightarrow> Inr (rep, st\<lparr>json_dict_representation := rep\<rparr>))
      else if extension b = ''properties'' then
        (case properties_parse_to_dict w (files b) (properties_dict_representation st) of
           Inl e \<Rightarrow> Inl e
         | Inr rep \<Rightarrow> Inr (rep, st\<lparr>properties_dict_representation := rep\<rparr>))
      else Inl (NameError ''whoami''))"

definition process_bundle ::
  "(string \<Rightarrow> entries option) \<Rightarrow> bundle_obj \<Rightarrow> state \<Rightarrow> world
     \<Rightarrow> (error + bundle_obj \<times> state) \<times> world" where
  "process_bundle loads b st w =
     (case parsed_bundle_of loads b st w of
        Inl e \<Rightarrow> (Inl e, w)
      | Inr (parsed_bundle, st') \<Rightarrow>
          (case generate_snapshot_file b w of
             (Inl e, b', w') \<Rightarrow> (Inl e, w')
           | (Inr snapshot_file, b', w') \<Rightarrow>
               (case get_default_locale_file b' of
                  Inl e \<Rightarrow> (Inl e, w')
                | Inr default_locale_file \<Rightarrow>
                    (case new_entries snapshot_file default_locale_file parsed_bundle
                            (additions st') of
                       Inl e \<Rightarrow> (Inl e, w')
                     | Inr adds \<Rightarrow>
                         (case check_missing_keys_in_other_locales snapshot_file
                                 parsed_bundle (missing st') of
                            Inl e \<Rightarrow> (Inl e, w')
                          | Inr miss \<Rightarrow>
                              (Inr (b', st'\<lparr>additions := adds, missing := miss\<rparr>), w'))))))"

fun process_all ::
  "(string \<Rightarrow> entries option) \<Rightarrow> bundle_obj list \<Rightarrow> state \<Rightarrow> world
     \<Rightarrow> (error + bundle_obj list \<times> state) \<times> world" where
  "process_all loads [] st w = (Inr ([], st), w)"
| "process_all loads (b # bs) st w =
     (case process_bundle loads b st w of
        (Inl e, w') \<Rightarrow> (Inl e, w')
      | (Inr (b', st'), w') \<Rightarrow>
          (case process_all loads bs st' w' of
             (Inl e, w'') \<Rightarrow> (Inl e, w'')
           | (Inr (bs', st''), w'') \<Rightarrow> (Inr (b' # bs', st''), w'')))"

section \<open>Reconciliator\<close>

text \<open>
  \<open>sorted(values)\<close> compares with \<open><\<close>. Strings are ordered among themselves, booleans
  and integers among themselves by their number; \<open>None\<close> and a nested object are ordered
  with nothing, not even with their like. A list of at most one value is returned without
  any comparison. A longer list is sorted when all its values are strings or all are
  numbers, and otherwise some comparison raises \<open>TypeError\<close>. The sort is stable.
\<close>

definition is_str :: "pyval \<Rightarrow> bool" where
  "is_str v = (case v of PyStr _ \<Rightarrow> True | _ \<Rightarrow> False)"

definition is_num :: "pyval \<Rightarrow> bool" where
  "is_num v = (case v of PyBool _ \<Rightarrow> True | PyInt _ \<Rightarrow> True | _ \<Rightarrow> False)"

definition str_of :: "pyval \<Rightarrow> string" where
  "str_of v = (case v of PyStr s \<Rightarrow> s | _ \<Rightarrow> [])"

definition num_of :: "pyval \<Rightarrow> int" where
  "num_of v = (case v of PyBool b \<Rightarrow> (if b then 1 else 0) | PyInt i \<Rightarrow> i | _ \<Rightarrow> 0)"

definition py_sorted :: "pyval list \<Rightarrow> error + pyval list" where
  "py_sorted vs =
     (if length vs \<le> 1 then Inr vs
      else if list_all is_str vs then Inr (sort_key str_of vs)
      else if list_all is_num vs then Inr (sort_key num_of vs)
      else Inl (TypeError ''<''))"

text \<open>
  One of the two loops of \<open>print_manifest\<close>, over the items of \<open>added\<close> or of \<open>missing\<close>:
  \<open>self.data[name] = self.data.get(name) or []\<close> followed by
  \<open>self.data[name].append({locale: sorted(strings)})\<close>. An error of \<open>sorted\<close> ends
  the run.
\<close>

fun append_sections ::
  "string \<Rightarrow> (string, pyval list) dict \<Rightarrow> manifest \<Rightarrow> error + manifest" where
  "append_sections name [] d = Inr d"
| "append_sections name (ls # rest) d =
     (case py_sorted (snd ls) of
        Inl e \<Rightarrow> Inl e
      | Inr sorted_strings \<Rightarrow>
          append_sections name rest
            (dict_set d name
               ((case map_of d name of None \<Rightarrow> [] | Some xs \<Rightarrow> xs) @
                [[(fst ls, sorted_strings)]])))"

definition print_manifest ::
  "string \<Rightarrow> (string, pyval list) dict \<Rightarrow> (string, pyval list) dict \<Rightarrow> manifest \<Rightarrow> world
     \<Rightarrow> (error + manifest) \<times> world" where
  "print_manifest output_option miss added d w =
     (case append_sections ''added'' added d of
        Inl e \<Rightarrow> (Inl e, w)
      | Inr d1 \<Rightarrow>
          (case append_sections ''missing'' miss d1 of
             Inl e \<Rightarrow> (Inl e, w)
           | Inr d2 \<Rightarrow>
               if output_option = ''json'' \<and> d2 \<noteq> [] then
                 (Inr d2, w\<lparr>stdout := stdout w @ [JsonDocument d2]\<rparr>)
               else if output_option = ''yaml'' \<and> d2 \<noteq> [] then
                 (Inr d2, w\<lparr>stdout := stdout w @ [YamlDocument d2]\<rparr>)
               else (Inr d2, w)))"

text \<open>
  The entry mappings of the parsers hold strings, and so do \<open>additions\<close> and \<open>missing\<close> in
  the state; \<open>generate_all\<close> hands them to \<open>print_manifest\<close> as they are.
\<close>

definition as_values :: "(string, string list) dict \<Rightarrow> (string, pyval list) dict" where
  "as_values m = map (\<lambda>ls. (fst ls, map PyStr (snd ls))) m"

definition generate_all ::
  "string \<Rightarrow> (string \<Rightarrow> entries option) \<Rightarrow> bundle_obj list \<Rightarrow> state \<Rightarrow> world
     \<Rightarrow> (error + bundle_obj list \<times> state) \<times> world" where
  "generate_all output_option loads all_bundles st w =
     (case process_all loads all_bundles st w of
        (Inl e, w') \<Rightarrow> (Inl e, w')
      | (Inr (bs, st'), w') \<Rightarrow>
          (case print_manifest output_option (as_values (missing st'))
                  (as_values (additions st')) (data st') w' of
             (Inl e, w'') \<Rightarrow> (Inl e, w'')
           | (Inr d, w'') \<Rightarrow> (Inr (bs, st'\<lparr>data := d\<rparr>), w'')))"

section \<open>Properties of the values\<close>

lemma dict_set_keys: "fst ` set (dict_set d k v) = insert k (fst ` set d)"
proof (induction d)
  case Nil
  show ?case by simp
next
  case (Cons p d)
  obtain k' v' where p: "p = (k', v')" by (cases p)
  show ?case
  proof (cases "k' = k")
    case True
    then show ?thesis by (simp add: p)
  next
    case False
    then show ?thesis using Cons.IH by (simp add: p insert_commute)
  qed
qed

lemma dict_set_distinct: "distinct (map fst d) \<Longrightarrow> distinct (map fst (dict_set d k v))"
proof (induction d)
  case Nil
  then show ?case by simp
next
  case (Cons p d)
  obtain k' v' where p: "p = (k', v')" by (cases p)
  show ?case
  proof (cases "k' = k")
    case True
    then show ?thesis using Cons.prems by (simp add: p)
  next
    case False
    have "k' \<notin> fst ` set (dict_set d k v)"
      using Cons.prems False by (simp add: p dict_set_keys)
    then show ?thesis using Cons False by (simp add: p)
  qed
qed

lemma dict_set_map_of: "map_of (dict_set d k v) = (map_of d)(k \<mapsto> v)"
  by (induction d) auto

lemma str_split_not_Nil: "str_split sep s \<noteq> []"
  by (cases s) (auto split: list.splits)

lemma str_split_no_sep: "sep \<notin> set s \<Longrightarrow> str_split sep s = [s]"
  by (induction s) auto

lemma str_split_first:
  "sep \<notin> set a \<Longrightarrow> str_split sep (a @ sep # rest) = a # str_split sep rest"
  by (induction a) auto

lemma str_join_split: "str_join sep (str_split sep s) = s"
proof (induction s)
  case Nil
  then show ?case by simp
next
  case (Cons c cs)
  show ?case
  proof (cases "c = sep")
    case True
    obtain p ps where "str_split sep cs = p # ps"
      using str_split_not_Nil [of sep cs] by (cases "str_split sep cs") auto
    with Cons True show ?thesis by simp
  next
    case False
    obtain p ps where sp: "str_split sep cs = p # ps"
      using str_split_not_Nil [of sep cs] by (cases "str_split sep cs") auto
    with Cons have "str_join sep (p # ps) = cs" by simp
    with False sp show ?thesis by (cases ps) auto
  qed
qed


lemma strip_with_Nil: "strip_with P [] = []"
  by (simp add: strip_with_def)

section \<open>The delimited-text parser, line by line\<close>

text \<open>
  C6. For every line and every mapping built so far: a line that is empty after trimming,
  whose first character after trimming is \<open>#\<close>, or that has no separator leaves the
  mapping as it is; a line that is not a comment and whose trimmed text is
  \<open>left = remainder\<close>, with no separator in \<open>left\<close>, stores under the key \<open>left\<close>
  trimmed of whitespace the value \<open>remainder\<close> (later separators included) trimmed of
  whitespace and then of surrounding quote characters, and stores nothing when that value
  is empty.
\<close>

theorem store_line_rule:
  "(strip line = [] \<or> startswith (strip line) comment_char \<or> separator \<notin> set (strip line)
      \<longrightarrow> store_line line d = d) \<and>
   (\<not> startswith (strip line) comment_char \<and> strip line = left @ separator # remainder \<and>
    separator \<notin> set left
      \<longrightarrow> store_line line d =
          (if strip_quotes (strip remainder) = [] then d
           else dict_set d (strip left) (strip_quotes (strip remainder))))"
proof (intro conjI impI)
  assume skip: "strip line = [] \<or> startswith (strip line) comment_char \<or>
    separator \<notin> set (strip line)"
  show "store_line line d = d"
  proof (cases "strip line = [] \<or> startswith (strip line) comment_char")
    case True
    then show ?thesis by (auto simp: store_line_def parse_line_def)
  next
    case False
    with skip have "str_split separator (strip line) = [strip line]"
      by (simp add: str_split_no_sep)
    then show ?thesis
      by (simp add: store_line_def parse_line_def Let_def strip_def strip_quotes_def
          strip_with_Nil)
  qed
next
  assume h: "\<not> startswith (strip line) comment_char \<and>
    strip line = left @ separator # remainder \<and> separator \<notin> set left"
  then have sp: "str_split separator (strip line) = left # str_split separator remainder"
    by (simp add: str_split_first)
  from h have ne: "strip line \<noteq> []" by simp
  from h have nc: "\<not> startswith (strip line) comment_char" by (rule conjunct1)
  show "store_line line d =
          (if strip_quotes (strip remainder) = [] then d
           else dict_set d (strip left) (strip_quotes (strip remainder)))"
    using nc ne sp by (simp add: store_line_def parse_line_def Let_def str_join_split)
qed

theorem store_line_rule_witness:
  "store_line (''  key = '' @ [quote] @ ''a=b '' @ [quote, newline]) [(''key'', ''old'')]
     = [(''key'', ''a=b '')] \<and>
   store_line (''key='' @ [newline]) [(''key'', ''old'')] = [(''key'', ''old'')] \<and>
   store_line (''  # key=1'' @ [newline]) [] = [] \<and>
   store_line (''no separator'' @ [newline]) [] = [] \<and>
   store_line [newline] [] = []"
proof -
  have "store_line (''  key = '' @ [quote] @ ''a=b '' @ [quote, newline]) [(''key'', ''old'')]
          = (if strip_quotes (strip ('' '' @ [quote] @ ''a=b '' @ [quote])) = []
             then [(''key'', ''old'')]
             else dict_set [(''key'', ''old'')] (strip ''key '')
                    (strip_quotes (strip ('' '' @ [quote] @ ''a=b '' @ [quote]))))"
    by (rule store_line_rule [THEN conjunct2, THEN mp]) code_simp
  also have "\<dots> = [(''key'', ''a=b '')]"
    by code_simp
  finally have a: "store_line (''  key = '' @ [quote] @ ''a=b '' @ [quote, newline])
      [(''key'', ''old'')] = [(''key'', ''a=b '')]" .
  have "store_line (''key='' @ [newline]) [(''key'', ''old'')]
          = (if strip_quotes (strip []) = [] then [(''key'', ''old'')]
             else dict_set [(''key'', ''old'')] (strip ''key'') (strip_quotes (strip [])))"
    by (rule store_line_rule [THEN conjunct2, THEN mp]) code_simp
  also have "\<dots> = [(''key'', ''old'')]"
    by code_simp
  finally have b: "store_line (''key='' @ [newline]) [(''key'', ''old'')]
      = [(''key'', ''old'')]" .
  have c: "store_line (''  # key=1'' @ [newline]) [] = []"
    by (rule store_line_rule [THEN conjunct1, THEN mp]) code_simp
  have d: "store_line (''no separator'' @ [newline]) [] = []"
    by (rule store_line_rule [THEN conjunct1, THEN mp]) code_simp
  have e: "store_line [newline] [] = []"
    by (rule store_line_rule [THEN conjunct1, THEN mp]) code_simp
  from a b c d e show ?thesis by simp
qed

section \<open>The delimited-text parser, file by file\<close>

lemma fold_store_line_distinct:
  "distinct (map fst d) \<Longrightarrow> distinct (map fst (fold store_line ls d))"
proof (induction ls arbitrary: d)
  case Nil
  then show ?case by simp
next
  case (Cons l ls)
  have "distinct (map fst (store_line l d))"
    using Cons.prems by (auto simp: store_line_def dict_set_distinct split: option.splits)
  then show ?case using Cons.IH by simp
qed

lemma fold_store_line_other:
  "\<forall>l \<in> set ls. map_option fst (parse_line l) \<noteq> Some k \<Longrightarrow>
   map_of (fold store_line ls d) k = map_of d k"
proof (induction ls arbitrary: d)
  case Nil
  then show ?case by simp
next
  case (Cons l ls)
  have "map_of (store_line l d) k = map_of d k"
    using Cons.prems by (auto simp: store_line_def dict_set_map_of split: option.splits)
  then show ?case using Cons by simp
qed

lemma map_of_distinct_count:
  "distinct (map fst d) \<Longrightarrow> map_of d k = Some v \<Longrightarrow> filter (\<lambda>e. fst e = k) d = [(k, v)]"
proof (induction d)
  case Nil
  then show ?case by simp
next
  case (Cons p d)
  obtain k' v' where p: "p = (k', v')" by (cases p)
  show ?case
  proof (cases "k' = k")
    case True
    with Cons.prems p have "k \<notin> fst ` set d" and "v' = v" by auto
    then have "filter (\<lambda>e. fst e = k) d = []"
      by (auto simp: filter_empty_conv)
    with True p \<open>v' = v\<close> show ?thesis by simp
  next
    case False
    with Cons p show ?thesis by simp
  qed
qed

lemma parse_lines_last_wins:
  assumes "ls = before @ line # after"
      and "parse_line line = Some (k, v)"
      and "\<forall>l \<in> set after. map_option fst (parse_line l) \<noteq> Some k"
  shows "distinct (map fst (parse_lines ls)) \<and>
         filter (\<lambda>e. fst e = k) (parse_lines ls) = [(k, v)]"
proof -
  have d: "distinct (map fst (parse_lines ls))"
    by (simp add: parse_lines_def fold_store_line_distinct)
  have "map_of (parse_lines ls) k
          = map_of (store_line line (fold store_line before [])) k"
    using assms(1,3) by (simp add: parse_lines_def fold_store_line_other)
  also have "\<dots> = Some v"
    using assms(2) by (simp add: store_line_def dict_set_map_of)
  finally have "map_of (parse_lines ls) k = Some v" .
  with d show ?thesis by (simp add: map_of_distinct_count)
qed

lemma readlines_terminated:
  "newline \<notin> set l \<Longrightarrow> readlines (l @ newline # rest) = (l @ [newline]) # readlines rest"
  by (induction l) auto

lemma readlines_unterminated:
  "newline \<notin> set t \<Longrightarrow> readlines t = (if t = [] then [] else [t])"
  by (induction t) (auto split: if_splits)

lemma readlines_lines:
  "\<forall>l \<in> set ls. newline \<notin> set l \<Longrightarrow> newline \<notin> set tail \<Longrightarrow>
   readlines (concat (map (\<lambda>l. l @ [newline]) ls) @ tail) =
     map (\<lambda>l. l @ [newline]) ls @ (if tail = [] then [] else [tail])"
proof (induction ls)
  case Nil
  then show ?case by (simp add: readlines_unterminated)
next
  case (Cons l ls)
  then show ?case by (simp add: readlines_terminated)
qed

lemma properties_parse_to_dict_keeps:
  "properties_parse_to_dict w fs rep = Inr rep' \<Longrightarrow>
   map_of (disk w) f = Some content \<Longrightarrow>
   map_of rep f = Some (parse_lines (readlines (universal_newlines content))) \<Longrightarrow>
   map_of rep' f = Some (parse_lines (readlines (universal_newlines content)))"
proof (induction fs arbitrary: rep)
  case Nil
  then show ?case by simp
next
  case (Cons g fs)
  from Cons.prems(1) obtain c where c: "map_of (disk w) g = Some c"
    and rest: "properties_parse_to_dict w fs
        (dict_set rep g (parse_lines (readlines (universal_newlines c)))) = Inr rep'"
    by (auto split: option.splits)
  have "map_of (dict_set rep g (parse_lines (readlines (universal_newlines c)))) f
      = Some (parse_lines (readlines (universal_newlines content)))"
    using Cons.prems(2,3) c by (auto simp: dict_set_map_of)
  with Cons.IH [OF rest Cons.prems(2)] show ?case .
qed

lemma properties_parse_to_dict_file:
  "properties_parse_to_dict w fs rep = Inr rep' \<Longrightarrow> f \<in> set fs \<Longrightarrow>
   map_of (disk w) f = Some content \<Longrightarrow>
   map_of rep' f = Some (parse_lines (readlines (universal_newlines content)))"
proof (induction fs arbitrary: rep)
  case Nil
  then show ?case by simp
next
  case (Cons g fs)
  from Cons.prems(1) obtain c where c: "map_of (disk w) g = Some c"
    and rest: "properties_parse_to_dict w fs
        (dict_set rep g (parse_lines (readlines (universal_newlines c)))) = Inr rep'"
    by (auto split: option.splits)
  show ?case
  proof (cases "f = g")
    case True
    with c Cons.prems(3) have "c = content" by simp
    then have "map_of (dict_set rep g (parse_lines (readlines (universal_newlines c)))) f
        = Some (parse_lines (readlines (universal_newlines content)))"
      using True by (simp add: dict_set_map_of)
    with properties_parse_to_dict_keeps [OF rest Cons.prems(3)] show ?thesis .
  next
    case False
    with Cons.prems(2) have "f \<in> set fs" by simp
    with Cons.IH [OF rest _ Cons.prems(3)] show ?thesis .
  qed
qed

text \<open>
  C9. A properties file of a bundle that the parser has read: its content, after the
  line ends \<open>CR LF\<close> and \<open>CR\<close> have become line feeds, is a sequence of lines ended by a
  line feed and possibly a last line without one. In the entry mapping the parser stores
  for the file no key occurs twice; and when a line stores the key \<open>k\<close> with the value
  \<open>v\<close> and no later line of the file stores \<open>k\<close>, the entries of the mapping with the
  key \<open>k\<close> are the one entry \<open>(k, v)\<close>: the last stored line wins, however many earlier
  lines stored \<open>k\<close>.
\<close>

theorem properties_file_last_wins:
  assumes parsed: "properties_parse_to_dict w fs rep = Inr rep'"
      and member: "f \<in> set fs"
      and content: "map_of (disk w) f = Some content"
      and shape: "universal_newlines content = concat (map (\<lambda>l. l @ [newline]) ls) @ tail"
      and lines: "\<forall>l \<in> set ls. newline \<notin> set l" "newline \<notin> set tail"
      and cut: "map (\<lambda>l. l @ [newline]) ls @ (if tail = [] then [] else [tail])
                    = before @ line # after"
      and stored: "parse_line line = Some (k, v)"
      and last: "\<forall>l \<in> set after. map_option fst (parse_line l) \<noteq> Some k"
  shows "\<exists>es. map_of rep' f = Some es \<and> distinct (map fst es) \<and>
              filter (\<lambda>e. fst e = k) es = [(k, v)]"
proof -
  have "readlines (universal_newlines content) = before @ line # after"
    using readlines_lines [OF lines] shape cut by simp
  from parse_lines_last_wins [OF this stored last]
    properties_parse_to_dict_file [OF parsed member content]
  show ?thesis by simp
qed

theorem properties_file_last_wins_witness:
  "properties_parse_to_dict
     \<lparr>disk = [(''/p/app_en_US.properties'',
               ''a=1'' @ [carriage_return, newline] @ ''b=2'' @ [newline] @
               ''a = 3'' @ [newline] @ ''# a=4'')],
      stdout = []\<rparr>
     [''/p/app_en_US.properties''] []
   = Inr [(''/p/app_en_US.properties'', [(''a'', ''3''), (''b'', ''2'')])] \<and>
   (\<exists>es. map_of [(''/p/app_en_US.properties'', [(''a'', ''3''), (''b'', ''2'')])]
           ''/p/app_en_US.properties'' = Some es \<and>
         distinct (map fst es) \<and> filter (\<lambda>e. fst e = ''a'') es = [(''a'', ''3'')])"
proof -
  let ?W = "\<lparr>disk = [(''/p/app_en_US.properties'',
               ''a=1'' @ [carriage_return, newline] @ ''b=2'' @ [newline] @
               ''a = 3'' @ [newline] @ ''# a=4'')],
      stdout = []\<rparr>"
  have parsed: "properties_parse_to_dict ?W [''/p/app_en_US.properties''] []
      = Inr [(''/p/app_en_US.properties'', [(''a'', ''3''), (''b'', ''2'')])]"
    by code_simp
  have member: "''/p/app_en_US.properties'' \<in> set [''/p/app_en_US.properties'']"
    by simp
  have content: "map_of (disk ?W) ''/p/app_en_US.properties''
      = Some (''a=1'' @ [carriage_return, newline] @ ''b=2'' @ [newline] @
              ''a = 3'' @ [newline] @ ''# a=4'')"
    by simp
  have shape: "universal_newlines (''a=1'' @ [carriage_return, newline] @ ''b=2'' @ [newline] @
        ''a = 3'' @ [newline] @ ''# a=4'')
      = concat (map (\<lambda>l. l @ [newline]) [''a=1'', ''b=2'', ''a = 3'']) @ ''# a=4''"
    by code_simp
  have l1: "\<forall>l \<in> set [''a=1'', ''b=2'', ''a = 3'']. newline \<notin> set l"
    by code_simp
  have l2: "newline \<notin> set ''# a=4''"
    by code_simp
  have cut: "map (\<lambda>l. l @ [newline]) [''a=1'', ''b=2'', ''a = 3''] @
        (if ''# a=4'' = [] then [] else [''# a=4''])
      = [''a=1'' @ [newline], ''b=2'' @ [newline]] @ (''a = 3'' @ [newline]) # [''# a=4'']"
    by simp
  have stored: "parse_line (''a = 3'' @ [newline]) = Some (''a'', ''3'')"
    by code_simp
  have last: "\<forall>l \<in> set [''# a=4'']. map_option fst (parse_line l) \<noteq> Some ''a''"
    by code_simp
  from properties_file_last_wins [OF parsed member content shape l1 l2 _ stored last,
      of "[''a=1'' @ [newline], ''b=2'' @ [newline]]"] cut
  have "\<exists>es. map_of [(''/p/app_en_US.properties'', [(''a'', ''3''), (''b'', ''2'')])]
           ''/p/app_en_US.properties'' = Some es \<and>
         distinct (map fst es) \<and> filter (\<lambda>e. fst e = ''a'') es = [(''a'', ''3'')]"
    by blast
  with parsed show ?thesis by blast
qed

section \<open>Additions\<close>

lemma new_values_filter:
  "new_values S C = filter (\<lambda>v. v \<notin> set (dict_values S)) (dict_values C)"
  by (induction C) (force simp: new_values_def dict_values_def)+

lemma dict_eq_values: "dict_eq S C \<Longrightarrow> set (dict_values C) = set (dict_values S)"
  by (simp add: dict_eq_def dict_values_def)

text \<open>
  C1. For the snapshot's mapping \<open>S\<close> and the default-locale file's mapping \<open>C\<close>,
  \<open>new_entries\<close> leaves \<open>additions\<close> as it is exactly when every value of \<open>C\<close> is among
  the values of \<open>S\<close>; otherwise it records, under the candidate file, the values of \<open>C\<close>
  (not its keys) that are not among the values of \<open>S\<close>, in the order of \<open>C\<close>. When the two
  mappings are equal nothing is recorded.
\<close>

theorem new_entries_rule:
  assumes "map_of parsed source = Some S" and "map_of parsed candidate = Some C"
  shows "new_entries source candidate parsed adds =
           Inr (if set (dict_values C) \<subseteq> set (dict_values S) then adds
                else dict_set adds candidate
                       (filter (\<lambda>v. v \<notin> set (dict_values S)) (dict_values C))) \<and>
         (dict_eq S C \<longrightarrow> new_entries source candidate parsed adds = Inr adds)"
proof -
  have e: "new_values S C = [] \<longleftrightarrow> set (dict_values C) \<subseteq> set (dict_values S)"
    by (auto simp: new_values_filter filter_empty_conv)
  show ?thesis
  proof (cases "dict_eq S C")
    case True
    then have "set (dict_values C) \<subseteq> set (dict_values S)"
      by (simp add: dict_eq_values)
    with True assms show ?thesis by (simp add: new_entries_def)
  next
    case False
    with assms e show ?thesis
      by (simp add: new_entries_def Let_def new_values_filter)
  qed
qed

section \<open>Missing keys\<close>

lemma missing_keys_empty:
  "missing_keys S F = [] \<longleftrightarrow> set (dict_keys S) \<subseteq> set (dict_keys F)"
  by (force simp: missing_keys_def filter_empty_conv dict_keys_def)

lemma fold_record_missing:
  "distinct (map fst parsed) \<Longrightarrow>
   map_of (fold (record_missing S) parsed miss) file =
     (case map_of parsed file of
        None \<Rightarrow> map_of miss file
      | Some F \<Rightarrow> if missing_keys S F = [] then map_of miss file
                  else Some (missing_keys S F))"
proof (induction parsed arbitrary: miss)
  case Nil
  then show ?case by simp
next
  case (Cons p parsed)
  obtain f F' where p: "p = (f, F')" by (cases p)
  from Cons.prems have d: "distinct (map fst parsed)" and nf: "f \<notin> fst ` set parsed"
    by (simp_all add: p)
  have step: "map_of (record_missing S (f, F') miss) file =
      (if file = f \<and> missing_keys S F' \<noteq> [] then Some (missing_keys S F')
       else map_of miss file)"
    by (simp add: record_missing_def Let_def dict_set_map_of)
  show ?case
  proof (cases "file = f")
    case True
    with nf have "map_of parsed file = None"
      by (simp add: map_of_eq_None_iff)
    with True step show ?thesis
      using Cons.IH [OF d, of "record_missing S (f, F') miss"] by (simp add: p)
  next
    case False
    with step show ?thesis
      using Cons.IH [OF d, of "record_missing S (f, F') miss"]
      by (simp add: p split: option.splits)
  qed
qed

text \<open>
  C2. For the snapshot's mapping \<open>S\<close> and the mapping \<open>F\<close> of any file of the parsed
  bundle (the snapshot and the default-locale file are among them): the list computed for
  the file is empty exactly when every key of \<open>S\<close> is a key of \<open>F\<close>, whatever the values;
  then the file's entry of \<open>missing\<close> is left as it was, and otherwise it becomes the
  strings \<open>key: value\<close> of the entries of \<open>S\<close> whose key is not a key of \<open>F\<close>.
\<close>

theorem check_missing_rule:
  assumes "map_of parsed source = Some S"
      and "distinct (map fst parsed)"
      and "(file, F) \<in> set parsed"
  shows "(missing_keys S F = [] \<longleftrightarrow> set (dict_keys S) \<subseteq> set (dict_keys F)) \<and>
         (\<exists>miss'. check_missing_keys_in_other_locales source parsed miss = Inr miss' \<and>
            map_of miss' file =
              (if set (dict_keys S) \<subseteq> set (dict_keys F) then map_of miss file
               else Some (map (\<lambda>(key, val). key @ '': '' @ val)
                            (filter (\<lambda>(key, val). key \<notin> set (dict_keys F)) S))))"
proof -
  from assms(2,3) have "map_of parsed file = Some F" by simp
  then have "map_of (fold (record_missing S) parsed miss) file =
      (if missing_keys S F = [] then map_of miss file else Some (missing_keys S F))"
    using fold_record_missing [OF assms(2), of S miss "file"]
    by simp
  then show ?thesis
    using assms(1) by (simp add: check_missing_keys_in_other_locales_def missing_keys_empty)
      (simp add: missing_keys_def)
qed


theorem new_entries_rule_witness:
  "new_entries ''app_en_US.json.snapshot'' ''app_en_US.json''
     [(''app_en_US.json'', [(''a'', ''1''), (''b'', ''2'')]),
      (''app_en_US.json.snapshot'', [(''a'', ''1'')])] []
   = Inr [(''app_en_US.json'', [''2''])]"
proof -
  have s: "map_of [(''app_en_US.json'', [(''a'', ''1''), (''b'', ''2'')]),
      (''app_en_US.json.snapshot'', [(''a'', ''1'')])] ''app_en_US.json.snapshot''
      = Some [(''a'', ''1'')]"
    by simp
  have c: "map_of [(''app_en_US.json'', [(''a'', ''1''), (''b'', ''2'')]),
      (''app_en_US.json.snapshot'', [(''a'', ''1'')])] ''app_en_US.json''
      = Some [(''a'', ''1''), (''b'', ''2'')]"
    by simp
  have v: "(if set (dict_values [(''a'', ''1''), (''b'', ''2'')]) \<subseteq> set (dict_values [(''a'', ''1'')])
            then []
            else dict_set [] ''app_en_US.json''
                   (filter (\<lambda>v. v \<notin> set (dict_values [(''a'', ''1'')]))
                      (dict_values [(''a'', ''1''), (''b'', ''2'')])))
           = [(''app_en_US.json'', [''2''])]"
    by (simp add: dict_values_def)
  from new_entries_rule [OF s c, of "[]"] v show ?thesis
    by (simp only:)
qed

theorem check_missing_rule_witness:
  "\<exists>miss'. check_missing_keys_in_other_locales ''app_en_US.json.snapshot''
       [(''app_en_US.json'', [(''a'', ''1''), (''b'', ''2'')]),
        (''app_fr.json'', [(''a'', ''un'')]),
        (''app_en_US.json.snapshot'', [(''a'', ''1''), (''b'', ''2'')])] [] = Inr miss' \<and>
     map_of miss' ''app_fr.json'' = Some [''b: 2'']"
proof -
  have s: "map_of [(''app_en_US.json'', [(''a'', ''1''), (''b'', ''2'')]),
        (''app_fr.json'', [(''a'', ''un'')]),
        (''app_en_US.json.snapshot'', [(''a'', ''1''), (''b'', ''2'')])]
        ''app_en_US.json.snapshot'' = Some [(''a'', ''1''), (''b'', ''2'')]"
    by simp
  have d: "distinct (map fst [(''app_en_US.json'', [(''a'', ''1''), (''b'', ''2'')]),
        (''app_fr.json'', [(''a'', ''un'')]),
        (''app_en_US.json.snapshot'', [(''a'', ''1''), (''b'', ''2'')])])"
    by simp
  have m: "(''app_fr.json'', [(''a'', ''un'')]) \<in> set [(''app_en_US.json'', [(''a'', ''1''), (''b'', ''2'')]),
        (''app_fr.json'', [(''a'', ''un'')]),
        (''app_en_US.json.snapshot'', [(''a'', ''1''), (''b'', ''2'')])]"
    by simp
  have v: "(if set (dict_keys [(''a'', ''1''), (''b'', ''2'')]) \<subseteq> set (dict_keys [(''a'', ''un'')])
            then map_of [] ''app_fr.json''
            else Some (map (\<lambda>(key, val). key @ '': '' @ val)
                        (filter (\<lambda>(key, val). key \<notin> set (dict_keys [(''a'', ''un'')]))
                           [(''a'', ''1''), (''b'', ''2'')])))
           = Some [''b: 2'']"
    by (simp add: dict_keys_def)
  from check_missing_rule [OF s d m, of "[]"] v show ?thesis
    by (simp only:)
qed

section \<open>The manifest\<close>











section \<open>The default-locale pattern\<close>





lemma re_match_iff:
  "re_match loc s \<longleftrightarrow>
     (\<exists>pre rest. s = pre @ CHR ''_'' # loc @ rest \<and> newline \<notin> set pre \<and>
        \<not> sublist ''snapshot'' (takeWhile (\<lambda>c. c \<noteq> newline) rest))"
proof (induction s)
  case Nil
  show ?case by (simp add: matches_here_def)
next
  case (Cons c cs)
  have here: "matches_here loc (c # cs) \<longleftrightarrow>
      (\<exists>rest. c # cs = CHR ''_'' # loc @ rest \<and>
         \<not> sublist ''snapshot'' (takeWhile (\<lambda>c. c \<noteq> newline) rest))"
    by (auto simp: matches_here_def prefix_def)
  show ?case
  proof
    assume "re_match loc (c # cs)"
    then consider "matches_here loc (c # cs)" | "c \<noteq> newline" "re_match loc cs"
      by auto
    then show "\<exists>pre rest. c # cs = pre @ CHR ''_'' # loc @ rest \<and> newline \<notin> set pre \<and>
        \<not> sublist ''snapshot'' (takeWhile (\<lambda>c. c \<noteq> newline) rest)"
    proof cases
      case 1
      with here obtain rest where "c # cs = [] @ CHR ''_'' # loc @ rest"
        "\<not> sublist ''snapshot'' (takeWhile (\<lambda>c. c \<noteq> newline) rest)" by auto
      then show ?thesis by (metis empty_iff set_empty)
    next
      case 2
      with Cons obtain pre rest where "cs = pre @ CHR ''_'' # loc @ rest" "newline \<notin> set pre"
        "\<not> sublist ''snapshot'' (takeWhile (\<lambda>c. c \<noteq> newline) rest)" by auto
      with 2(1) have "c # cs = (c # pre) @ CHR ''_'' # loc @ rest \<and> newline \<notin> set (c # pre) \<and>
        \<not> sublist ''snapshot'' (takeWhile (\<lambda>c. c \<noteq> newline) rest)" by auto
      then show ?thesis by blast
    qed
  next
    assume "\<exists>pre rest. c # cs = pre @ CHR ''_'' # loc @ rest \<and> newline \<notin> set pre \<and>
        \<not> sublist ''snapshot'' (takeWhile (\<lambda>c. c \<noteq> newline) rest)"
    then obtain pre rest where e: "c # cs = pre @ CHR ''_'' # loc @ rest" "newline \<notin> set pre"
        "\<not> sublist ''snapshot'' (takeWhile (\<lambda>c. c \<noteq> newline) rest)" by blast
    show "re_match loc (c # cs)"
    proof (cases pre)
      case Nil
      with e here show ?thesis by auto
    next
      case (Cons p ps)
      with e have "c = p" "cs = ps @ CHR ''_'' # loc @ rest" "newline \<notin> set ps" "c \<noteq> newline"
        by auto
      with e(3) Cons.IH show ?thesis by auto
    qed
  qed
qed


section \<open>The default-locale file\<close>

lemma get_default_locale_file_cases:
  "get_default_locale_file b =
     (case filter (re_match (default_locale b)) (files b) of
        [] \<Rightarrow> Inl (NoMatch (default_locale b) (path b))
      | [f] \<Rightarrow> Inr f
      | f # g # fs \<Rightarrow> Inl (MultipleMatches (default_locale b) (path b) (f # g # fs)))"
  by (simp add: get_default_locale_file_def Let_def split: list.splits)

text \<open>
  C3. The match of \<open>get_default_locale_file\<close> is not "contains \<open>_<default_locale>\<close> and
  does not contain \<open>snapshot\<close>": the lookahead inspects only what follows the locale
  (\<open>re_match_iff\<close>). The file \<open>/p/snapshot_en_US.json\<close> contains \<open>snapshot\<close>, and it is
  the one match of its bundle, returned as the default-locale file. The three outcomes by
  the number of matches are as \<open>get_default_locale_file_cases\<close> states them.
\<close>

theorem default_locale_match_ignores_leading_snapshot:
  "sublist ''snapshot'' ''/p/snapshot_en_US.json'' \<and>
   get_default_locale_file
     \<lparr>path = ''/p'', extension = ''json'', files = [''/p/snapshot_en_US.json''],
      default_locale = ''en_US''\<rparr>
   = Inr ''/p/snapshot_en_US.json''"
  by code_simp

section \<open>The snapshot file\<close>













section \<open>The unsupported extension\<close>

text \<open>
  C7. A bundle whose extension is neither \<open>json\<close> nor \<open>properties\<close> stops
  \<open>process_bundle\<close> at once, before anything is read or written; but the error is the
  \<open>NameError\<close> of the unbound name \<open>whoami\<close>, raised while the message is being built: it
  does not carry the bundle's extension.
\<close>

theorem unsupported_extension_name_error:
  assumes "extension b \<noteq> ''json''" and "extension b \<noteq> ''properties''"
  shows "process_bundle loads b st w = (Inl (NameError ''whoami''), w)"
  using assms by (simp add: process_bundle_def parsed_bundle_of_def)

theorem unsupported_extension_name_error_witness:
  "process_bundle Map.empty
     \<lparr>path = ''/p'', extension = ''yaml'', files = [''/p/app_en_US.yaml''],
      default_locale = ''en_US''\<rparr>
     initial_state
     \<lparr>disk = [(''/p/app_en_US.yaml'', ''a: 1'')], stdout = []\<rparr>
   = (Inl (NameError ''whoami''),
      \<lparr>disk = [(''/p/app_en_US.yaml'', ''a: 1'')], stdout = []\<rparr>)"
proof -
  have j: "extension \<lparr>path = ''/p'', extension = ''yaml'', files = [''/p/app_en_US.yaml''],
      default_locale = ''en_US''\<rparr> \<noteq> ''json''"
    by simp
  have p: "extension \<lparr>path = ''/p'', extension = ''yaml'', files = [''/p/app_en_US.yaml''],
      default_locale = ''en_US''\<rparr> \<noteq> ''properties''"
    by simp
  from unsupported_extension_name_error [OF j p] show ?thesis .
qed


section \<open>Two bundles in one run\<close>

text \<open>
  C5. Two bundles of the properties format, each in step with its own snapshot, after
  \<open>Bundler.gather\<close> has added the snapshots to their files. The first is processed from the
  initial state. For the second, the parsed mapping handed to the diff computations holds
  the two files of the first bundle beside its own two: the parser wrote into the
  dictionary of its class. The missing computation of the second bundle then records, for
  both files of the first bundle, the key of the second bundle's snapshot.
\<close>

theorem shared_dict_representation_leaks:
  "process_bundle loads
     \<lparr>path = ''/a'', extension = ''properties'',
      files = [''/a/m_en_US.properties'', ''/a/m_en_US.properties.snapshot''],
      default_locale = ''en_US''\<rparr>
     initial_state
     \<lparr>disk = [(''/a/m_en_US.properties'', ''k=1''),
              (''/a/m_en_US.properties.snapshot'', ''k=1''),
              (''/b/n_en_US.properties'', ''j=2''),
              (''/b/n_en_US.properties.snapshot'', ''j=2'')],
      stdout = []\<rparr>
   = (Inr (\<lparr>path = ''/a'', extension = ''properties'',
            files = [''/a/m_en_US.properties'', ''/a/m_en_US.properties.snapshot''],
            default_locale = ''en_US''\<rparr>,
           \<lparr>json_dict_representation = [],
            properties_dict_representation =
              [(''/a/m_en_US.properties'', [(''k'', ''1'')]),
               (''/a/m_en_US.properties.snapshot'', [(''k'', ''1'')])],
            additions = [], missing = [], data = []\<rparr>),
      \<lparr>disk = [(''/a/m_en_US.properties'', ''k=1''),
               (''/a/m_en_US.properties.snapshot'', ''k=1''),
               (''/b/n_en_US.properties'', ''j=2''),
               (''/b/n_en_US.properties.snapshot'', ''j=2'')],
       stdout = []\<rparr>) \<and>
   process_bundle loads
     \<lparr>path = ''/b'', extension = ''properties'',
      files = [''/b/n_en_US.properties'', ''/b/n_en_US.properties.snapshot''],
      default_locale = ''en_US''\<rparr>
     \<lparr>json_dict_representation = [],
      properties_dict_representation =
        [(''/a/m_en_US.properties'', [(''k'', ''1'')]),
         (''/a/m_en_US.properties.snapshot'', [(''k'', ''1'')])],
      additions = [], missing = [], data = []\<rparr>
     \<lparr>disk = [(''/a/m_en_US.properties'', ''k=1''),
              (''/a/m_en_US.properties.snapshot'', ''k=1''),
              (''/b/n_en_US.properties'', ''j=2''),
              (''/b/n_en_US.properties.snapshot'', ''j=2'')],
      stdout = []\<rparr>
   = (Inr (\<lparr>path = ''/b'', extension = ''properties'',
            files = [''/b/n_en_US.properties'', ''/b/n_en_US.properties.snapshot''],
            default_locale = ''en_US''\<rparr>,
           \<lparr>json_dict_representation = [],
            properties_dict_representation =
              [(''/a/m_en_US.properties'', [(''k'', ''1'')]),
               (''/a/m_en_US.properties.snapshot'', [(''k'', ''1'')]),
               (''/b/n_en_US.properties'', [(''j'', ''2'')]),
               (''/b/n_en_US.properties.snapshot'', [(''j'', ''2'')])],
            additions = [],
            missing = [(''/a/m_en_US.properties'', [''j: 2'']),
                       (''/a/m_en_US.properties.snapshot'', [''j: 2''])],
            data = []\<rparr>),
      \<lparr>disk = [(''/a/m_en_US.properties'', ''k=1''),
               (''/a/m_en_US.properties.snapshot'', ''k=1''),
               (''/b/n_en_US.properties'', ''j=2''),
               (''/b/n_en_US.properties.snapshot'', ''j=2'')],
       stdout = []\<rparr>) \<and>
   parsed_bundle_of loads
     \<lparr>path = ''/b'', extension = ''properties'',
      files = [''/b/n_en_US.properties'', ''/b/n_en_US.properties.snapshot''],
      default_locale = ''en_US''\<rparr>
     \<lparr>json_dict_representation = [],
      properties_dict_representation =
        [(''/a/m_en_US.properties'', [(''k'', ''1'')]),
         (''/a/m_en_US.properties.snapshot'', [(''k'', ''1'')])],
      additions = [], missing = [], data = []\<rparr>
     \<lparr>disk = [(''/a/m_en_US.properties'', ''k=1''),
              (''/a/m_en_US.properties.snapshot'', ''k=1''),
              (''/b/n_en_US.properties'', ''j=2''),
              (''/b/n_en_US.properties.snapshot'', ''j=2'')],
      stdout = []\<rparr>
   = Inr ([(''/a/m_en_US.properties'', [(''k'', ''1'')]),
           (''/a/m_en_US.properties.snapshot'', [(''k'', ''1'')]),
           (''/b/n_en_US.properties'', [(''j'', ''2'')]),
           (''/b/n_en_US.properties.snapshot'', [(''j'', ''2'')])],
          \<lparr>json_dict_representation = [],
           properties_dict_representation =
             [(''/a/m_en_US.properties'', [(''k'', ''1'')]),
              (''/a/m_en_US.properties.snapshot'', [(''k'', ''1'')]),
              (''/b/n_en_US.properties'', [(''j'', ''2'')]),
              (''/b/n_en_US.properties.snapshot'', [(''j'', ''2'')])],
           additions = [], missing = [], data = []\<rparr>)"
  by code_simp

section \<open>One bundle in one run\<close>

lemma json_parse_to_dict_distinct:
  "json_parse_to_dict loads w fs rep = Inr rep' \<Longrightarrow> distinct (map fst rep) \<Longrightarrow>
   distinct (map fst rep')"
  by (induction fs arbitrary: rep) (auto simp: dict_set_distinct split: option.splits)

lemma properties_parse_to_dict_distinct:
  "properties_parse_to_dict w fs rep = Inr rep' \<Longrightarrow> distinct (map fst rep) \<Longrightarrow>
   distinct (map fst rep')"
  by (induction fs arbitrary: rep) (auto simp: dict_set_distinct split: option.splits)

lemma parsed_bundle_of_initial:
  assumes "parsed_bundle_of loads b initial_state w = Inr (rep, st)"
  shows "distinct (map fst rep) \<and> missing st = []"
  using assms
  by (auto simp: parsed_bundle_of_def initial_state_def
      split: if_splits sum.splits
      dest: json_parse_to_dict_distinct properties_parse_to_dict_distinct)

lemma missing_keys_self: "missing_keys S S = []"
  by (simp add: missing_keys_empty)

lemma check_missing_source_untouched:
  assumes "check_missing_keys_in_other_locales s rep miss = Inr miss'"
      and "distinct (map fst rep)"
  shows "map_of miss' s = map_of miss s"
proof -
  from assms(1) obtain S where S: "map_of rep s = Some S"
    and m: "miss' = fold (record_missing S) rep miss"
    by (auto simp: check_missing_keys_in_other_locales_def split: option.splits)
  show ?thesis
    using fold_record_missing [OF assms(2), of S miss s] S m
    by (simp add: missing_keys_self)
qed

text \<open>
  C10. A run over a single bundle, from the initial state, that reaches its end: the
  identifier that \<open>generate_snapshot_file\<close> returns for the bundle is not a key of
  \<open>missing\<close>. The source mapping of the missing computation is the snapshot's own
  mapping, so the list computed for the snapshot is empty and nothing is recorded for it.
\<close>

theorem snapshot_never_missing:
  assumes "generate_all output_option loads [b] initial_state w = (Inr (bs, st), w')"
  shows "\<exists>s. fst (generate_snapshot_file b w) = Inr s \<and> s \<notin> set (dict_keys (missing st))"
proof -
  from assms obtain b' st1 w1 where
    pb: "process_bundle loads b initial_state w = (Inr (b', st1), w1)"
    and st: "missing st = missing st1"
    by (auto simp: generate_all_def split: prod.splits sum.splits)
  from pb obtain rep st0 s b1 miss where
    p: "parsed_bundle_of loads b initial_state w = Inr (rep, st0)"
    and g: "generate_snapshot_file b w = (Inr s, b1, w1)"
    and c: "check_missing_keys_in_other_locales s rep (missing st0) = Inr miss"
    and m: "missing st1 = miss"
    by (auto simp: process_bundle_def split: prod.splits sum.splits)
  from parsed_bundle_of_initial [OF p] have d: "distinct (map fst rep)"
    and e: "missing st0 = []" by simp_all
  from check_missing_source_untouched [OF c d] e have "map_of miss s = None"
    by simp
  then have "s \<notin> set (dict_keys miss)"
    by (simp add: map_of_eq_None_iff dict_keys_def)
  with g st m show ?thesis by auto
qed

theorem snapshot_never_missing_witness:
  "\<exists>s. fst (generate_snapshot_file
              \<lparr>path = ''/p'', extension = ''properties'',
               files = [''/p/app_en_US.properties'', ''/p/app_fr.properties'',
                        ''/p/app_en_US.properties.snapshot''],
               default_locale = ''en_US''\<rparr>
              \<lparr>disk = [(''/p/app_en_US.properties'', ''a=1''),
                       (''/p/app_fr.properties'', ''c=3''),
                       (''/p/app_en_US.properties.snapshot'', ''a=1'')],
               stdout = []\<rparr>) = Inr s \<and>
       s \<notin> set (dict_keys
                  (missing
                     \<lparr>json_dict_representation = [],
                      properties_dict_representation =
                        [(''/p/app_en_US.properties'', [(''a'', ''1'')]),
                         (''/p/app_fr.properties'', [(''c'', ''3'')]),
                         (''/p/app_en_US.properties.snapshot'', [(''a'', ''1'')])],
                      additions = [],
                      missing = [(''/p/app_fr.properties'', [''a: 1''])],
                      data = [(''missing'', [[(''/p/app_fr.properties'', [PyStr ''a: 1''])]])]\<rparr>))"
proof -
  have run: "generate_all ''yaml'' Map.empty
      [\<lparr>path = ''/p'', extension = ''properties'',
        files = [''/p/app_en_US.properties'', ''/p/app_fr.properties'',
                 ''/p/app_en_US.properties.snapshot''],
        default_locale = ''en_US''\<rparr>]
      initial_state
      \<lparr>disk = [(''/p/app_en_US.properties'', ''a=1''),
               (''/p/app_fr.properties'', ''c=3''),
               (''/p/app_en_US.properties.snapshot'', ''a=1'')],
       stdout = []\<rparr>
    = (Inr ([\<lparr>path = ''/p'', extension = ''properties'',
              files = [''/p/app_en_US.properties'', ''/p/app_fr.properties'',
                       ''/p/app_en_US.properties.snapshot''],
              default_locale = ''en_US''\<rparr>],
            \<lparr>json_dict_representation = [],
             properties_dict_representation =
               [(''/p/app_en_US.properties'', [(''a'', ''1'')]),
                (''/p/app_fr.properties'', [(''c'', ''3'')]),
                (''/p/app_en_US.properties.snapshot'', [(''a'', ''1'')])],
             additions = [],
             missing = [(''/p/app_fr.properties'', [''a: 1''])],
             data = [(''missing'', [[(''/p/app_fr.properties'', [PyStr ''a: 1''])]])]\<rparr>),
       \<lparr>disk = [(''/p/app_en_US.properties'', ''a=1''),
                (''/p/app_fr.properties'', ''c=3''),
                (''/p/app_en_US.properties.snapshot'', ''a=1'')],
        stdout = [YamlDocument
                    [(''missing'', [[(''/p/app_fr.properties'', [PyStr ''a: 1''])]])]]\<rparr>)"
    by code_simp
  from snapshot_never_missing [OF run] show ?thesis .
qed


end
